theory Spec2Isabelle
  imports Main "HOL-Library.AList"
begin

section \<open>Data model\<close>

text \<open>
  The in-page half of the userscript engine (\<^verbatim>\<open>src/injected/web/index.js\<close>) is one
  JavaScript module with a module-level \<^verbatim>\<open>store\<close>, a \<^verbatim>\<open>bridge\<close> object and closures over
  both. The embedding below passes one record, \<open>world\<close>, through every function: it holds
  the module's variables, the closure variables that outlive a call, and the parts of the
  page the module reads or writes. Object literals are finite maps over their own keys.
  A JavaScript exception is the outcome \<open>Raise\<close>; the world returned with it carries the
  effects that happened before the throw.
\<close>

datatype val =
    Undefined
  | Null
  | BoolV bool
  | NumV int
  | StrV string
  | FunV string
  | BoundFn val
  | TabCloseFn
  | ObjV nat
  | ElemV string
  | GlobalRef
  | ViewRef nat

text \<open>
  \<open>GlobalRef\<close> is the real host global object (\<^verbatim>\<open>unsafeWindow\<close>), \<open>ViewRef a\<close> the object
  that \<^verbatim>\<open>getWrapper\<close> allocated at address \<open>a\<close>; \<open>BoundFn m\<close> is the arrow function
  \<^verbatim>\<open>(...args) => method.apply(unsafeWindow, args)\<close> closing over \<open>m\<close>, \<open>TabCloseFn\<close> the
  arrow function that posts \<^verbatim>\<open>TabClose\<close>. Strict equality \<^verbatim>\<open>===\<close> on these values is
  equality of the terms.
\<close>

fun truthy :: "val \<Rightarrow> bool" where
  "truthy Undefined = False"
| "truthy Null = False"
| "truthy (BoolV b) = b"
| "truthy (NumV n) = (n \<noteq> 0)"
| "truthy (StrV s) = (s \<noteq> [])"
| "truthy v = True"

datatype 'a outcome = Return 'a | Raise string

text \<open>
  A function supplied by a userscript is opaque: calling it is recorded in the world's
  \<open>invoked\<close> list, and it either returns or throws.
\<close>

datatype ufun = UFun nat bool

fun throws :: "ufun \<Rightarrow> bool" where
  "throws (UFun i b) = b"

text \<open>
  An identifier drawn by \<^verbatim>\<open>getUniqId\<close>: the prefix it was asked for and a serial number.
\<close>

datatype uid = Uid string nat

text \<open>
  Keys of \<^verbatim>\<open>store.callbacks\<close>: the integers that \<^verbatim>\<open>addCallback\<close> allocates and the
  prefixed identifiers that \<^verbatim>\<open>registerCallback\<close> draws.
\<close>

datatype key = NumKey int | UidKey uid

fun truthy_key :: "key \<Rightarrow> bool" where
  "truthy_key (NumKey n) = (n \<noteq> 0)"
| "truthy_key (UidKey u) = True"

text \<open>
  The functions stored in \<^verbatim>\<open>store.callbacks\<close>, defunctionalised: \<open>User f\<close> is a script's
  function stored by \<^verbatim>\<open>addCallback\<close>; \<open>OneShot k c\<close> is the arrow function
  \<^verbatim>\<open>payload => { callback(payload); delete store.callbacks[callbackId]; }\<close> that
  \<^verbatim>\<open>registerCallback\<close> stores, closing over \<open>callbackId = k\<close> and \<open>callback = c\<close>. The
  continuation \<open>c\<close> is a script's function or the closure that \<^verbatim>\<open>GM_addStyle\<close> passes, which
  lives at an address of \<open>styles\<close>.
\<close>

datatype cont = UserCont ufun | StyleCont nat

datatype callback = User ufun | OneShot key cont

datatype raw = RUndefined | RNull | RStr string

datatype msg =
    Ready
  | Inject uid "string list" string uid
  | PostCommand string int val
  | AddStyle string uid
  | UpdateValue string string raw
  | TabClose

record meta =
  m_grant :: "string list option"
  m_require :: "string list option"
  m_resources :: "(string \<times> string) list option"
  m_exclude :: "string list"
  m_include :: "string list"
  m_match :: "string list"
  m_name :: "string option"
  m_namespace :: "string option"
  m_version :: "string option"
  m_description :: "string option"
  m_runAt :: "string option"
  m_run_at :: "string option"

record custom =
  c_pathMap :: "(string \<times> string) list option"
  c_name :: "string option"
  c_runAt :: "string option"
  c_run_at :: "string option"

text \<open>
  A script descriptor. \<open>s_id\<close> and \<open>s_uuid\<close> are \<^verbatim>\<open>script.props.id\<close> and
  \<^verbatim>\<open>script.props.uuid\<close>, \<open>s_shouldUpdate\<close> is \<^verbatim>\<open>!!script.config.shouldUpdate\<close>. A field is an
  \<open>option\<close> where the source guards its absence with \<^verbatim>\<open>||\<close>.
\<close>

record script =
  s_meta :: meta
  s_custom :: custom
  s_shouldUpdate :: bool
  s_id :: string
  s_uuid :: string

record load_data =
  d_version :: string
  d_scripts :: "script list option"
  d_values :: "string \<Rightarrow> (string \<times> raw) list option"
  d_code :: "string \<Rightarrow> string option"
  d_require :: "string \<Rightarrow> string option"
  d_cache :: "string \<Rightarrow> string option"

record gm_script_info =
  i_description :: string
  i_excludes :: "string list"
  i_includes :: "string list"
  i_matches :: "string list"
  i_name :: string
  i_namespace :: string
  i_resources :: "(string \<times> string) list"
  i_runAt :: string
  i_unwrap :: bool
  i_version :: string

record gm_info =
  i_uuid :: string
  i_scriptMetaStr :: string
  i_scriptWillUpdate :: bool
  i_scriptHandler :: string
  i_engine_version :: "string option"
  i_script :: gm_script_info

text \<open>
  The values bound in the GM object: a plain value, the info object, or the closure of the
  API function of that name over the script (given by its id).
\<close>

datatype gmval = GVal val | GInfo gm_info | GFunc string string

record gm_prop =
  p_value :: gmval
  p_writable :: bool
  p_enumerable :: bool
  p_configurable :: bool

datatype this_ref = ThisGM | ThisView nat

record sandbox =
  thisObj :: this_ref
  wrapper :: "(string \<times> gm_prop) list"

text \<open>
  A property of a Protected View: a data property, or one of the two accessors.
  \<open>Protected modified value\<close> carries the closure variables of
  \<^verbatim>\<open>defineProtectedProperty\<close>.
\<close>

datatype wprop = Data val | Protected bool val | Reacted

datatype thrown = Thrown string "string option"

text \<open>
  \<open>Func i t\<close> is the function that the host's injection defined as \<^verbatim>\<open>window[i]\<close>: the
  assembled script. Applying it is recorded in \<open>executed\<close>; it returns, or throws \<open>e\<close> with
  \<open>t = Some (Thrown (String e) e.message)\<close>.
\<close>

datatype func = Func uid "thrown option"

record thunk =
  a_name :: string
  a_id :: uid
  a_args :: "gmval list"
  a_this :: this_ref

datatype listref = LStart | LIdle | LEnd

datatype task = RunList load_data listref

datatype entry = Log string | Warn string | Error string

record style_env =
  el :: val
  pending :: "ufun list"

text \<open>
  The world. \<open>state\<close> is the module variable of that name; \<open>store_values\<close>, \<open>callbacks\<close>,
  \<open>lastCallbackId\<close> are the fields of \<^verbatim>\<open>store\<close>; \<open>bridge_props\<close>, \<open>bridge_version\<close>,
  \<open>bridge_load\<close> the fields of \<^verbatim>\<open>bridge\<close>, and \<open>posted\<close> what \<^verbatim>\<open>bridge.post\<close> has sent;
  \<open>startQ\<close>, \<open>idleQ\<close>, \<open>endQ\<close> are the arrays \<^verbatim>\<open>start\<close>, \<^verbatim>\<open>idle\<close>, \<^verbatim>\<open>end\<close> of
  \<^verbatim>\<open>onLoadScripts\<close>; \<open>timers\<close> is the queue of \<^verbatim>\<open>setTimeout\<close> tasks; \<open>attached\<close> the
  functions given to \<^verbatim>\<open>attachFunction\<close>; \<open>styles\<close> the closure variables of the calls of
  \<^verbatim>\<open>GM_addStyle\<close>; \<open>views\<close> the Protected View objects; \<open>global\<close> the properties of the
  real global object; \<open>elements\<close> the ids of the document's elements; \<open>debug\<close> is
  \<^verbatim>\<open>process.env.DEBUG\<close>; \<open>header_of\<close> is \<^verbatim>\<open>String.prototype.match\<close> with the header
  pattern of \<^verbatim>\<open>wrapGM\<close>, giving the first group.
\<close>

record world =
  state :: nat
  readyState :: string
  debug :: bool
  header_of :: "string \<Rightarrow> string option"
  bridge_props :: "string list"
  bridge_version :: "string option"
  bridge_load :: "load_data option"
  posted :: "msg list"
  store_values :: "string \<Rightarrow> (string \<times> raw) list option"
  callbacks :: "key \<Rightarrow> callback option"
  lastCallbackId :: int
  uniq :: nat
  heap_next :: nat
  invoked :: "(ufun \<times> val) list"
  styles :: "nat \<Rightarrow> style_env option"
  elements :: "string list"
  global :: "string \<Rightarrow> val"
  views :: "nat \<Rightarrow> (string \<Rightarrow> wprop option) option"
  exposed :: bool
  startQ :: "script list"
  idleQ :: "script list"
  endQ :: "script list"
  timers :: "task list"
  attached :: "(uid \<times> thunk) list"
  injected :: "uid \<Rightarrow> func option"
  executed :: "func list"
  console :: "entry list"

text \<open>
  Modelled from the spec: \<^verbatim>\<open>getUniqId\<close> is defined in \<^verbatim>\<open>../utils\<close>, which is not among
  the sources. The spec calls its results a "unique per-injection identifier" and a
  "uniquely generated callback id": each call returns the prefix with the next serial
  number, so no two calls return the same identifier.
\<close>

definition getUniqId :: "string \<Rightarrow> world \<Rightarrow> uid \<times> world" where
  "getUniqId prefix w = (Uid prefix (uniq w), w\<lparr>uniq := Suc (uniq w)\<rparr>)"

definition post :: "msg \<Rightarrow> world \<Rightarrow> world" where
  "post m w = w\<lparr>posted := posted w @ [m]\<rparr>"

text \<open>The module's state when it is loaded, on a page that is still loading.\<close>

definition world0 :: world where
  "world0 =
     \<lparr>state = 0, readyState = ''loading'', debug = False, header_of = (\<lambda>code. None),
      bridge_props = [], bridge_version = None, bridge_load = None, posted = [],
      store_values = (\<lambda>i. None), callbacks = (\<lambda>k. None), lastCallbackId = 0,
      uniq = 0, heap_next = 0, invoked = [], styles = (\<lambda>a. None), elements = [],
      global = (\<lambda>n. Undefined), views = (\<lambda>a. None), exposed = False,
      startQ = [], idleQ = [], endQ = [], timers = [], attached = [],
      injected = (\<lambda>i. None), executed = [], console = []\<rparr>"

text \<open>Descriptors with only an id, a name, a grant array and a timing.\<close>

definition mk_script :: "string \<Rightarrow> string list option \<Rightarrow> string option \<Rightarrow> script" where
  "mk_script sid grant runAt =
     \<lparr>s_meta = \<lparr>m_grant = grant, m_require = None, m_resources = None, m_exclude = [],
                m_include = [], m_match = [], m_name = Some sid, m_namespace = None,
                m_version = None, m_description = None, m_runAt = runAt, m_run_at = None\<rparr>,
      s_custom = \<lparr>c_pathMap = None, c_name = None, c_runAt = None, c_run_at = None\<rparr>,
      s_shouldUpdate = False, s_id = sid, s_uuid = sid\<rparr>"

definition no_cache :: "string \<Rightarrow> string option" where
  "no_cache key = None"

section \<open>Value store cache\<close>


text \<open>
  What \<^verbatim>\<open>GM_getValue\<close> returns: \<open>Decoded j\<close> is the result of \<^verbatim>\<open>jsonLoad\<close>, \<open>NumberOf s\<close> is
  \<^verbatim>\<open>Number(s)\<close>, \<open>Truth b\<close> a boolean, \<open>RawText s\<close> the payload as it is stored, \<open>Missing\<close>
  the value undefined.
\<close>

definition loadValues :: "string \<Rightarrow> world \<Rightarrow> (string \<times> raw) list option" where
  "loadValues sid w = store_values w sid"

definition dumpValue :: "string \<Rightarrow> string \<Rightarrow> raw \<Rightarrow> world \<Rightarrow> world" where
  "dumpValue sid k v w = post (UpdateValue sid k v) w"

definition GM_deleteValue :: "string \<Rightarrow> string \<Rightarrow> world \<Rightarrow> unit outcome \<times> world" where
  "GM_deleteValue sid k w =
     (case loadValues sid w of
        None \<Rightarrow> (Raise ''TypeError'', w)
      | Some value \<Rightarrow>
          (Return (),
           dumpValue sid k RUndefined
             (w\<lparr>store_values := (store_values w)(sid \<mapsto> AList.delete k value)\<rparr>)))"



definition GM_listValues :: "string \<Rightarrow> world \<Rightarrow> string list outcome \<times> world" where
  "GM_listValues sid w =
     (case loadValues sid w of
        None \<Rightarrow> (Raise ''TypeError'', w)
      | Some value \<Rightarrow> (Return (map fst value), w))"


text \<open>The entry \<^verbatim>\<open>UpdatedValues\<close> of the handler table.\<close>

fun handlers_UpdatedValues :: "(string \<times> (string \<times> raw) list) list \<Rightarrow> world \<Rightarrow> world" where
  "handlers_UpdatedValues [] w = w"
| "handlers_UpdatedValues ((sid, value) # updates) w =
     handlers_UpdatedValues updates
       (case store_values w sid of
          None \<Rightarrow> w
        | Some old \<Rightarrow> w\<lparr>store_values := (store_values w)(sid \<mapsto> value)\<rparr>)"

section \<open>Capability sandbox builder\<close>

subsection \<open>The Protected View\<close>

definition blocked_names :: "string list" where
  "blocked_names = [''browser'']"

definition direct_names :: "string list" where
  "direct_names = [''eval'']"

definition bound_names :: "string list" where
  "bound_names =
     [''isFinite'', ''isNaN'', ''parseFloat'', ''parseInt'', ''decodeURI'',
      ''decodeURIComponent'', ''encodeURI'', ''encodeURIComponent'',
      ''addEventListener'', ''alert'', ''atob'', ''blur'', ''btoa'', ''clearInterval'',
      ''clearTimeout'', ''close'', ''confirm'', ''dispatchEvent'', ''fetch'', ''find'',
      ''focus'', ''getComputedStyle'', ''getDefaultComputedStyle'', ''getSelection'',
      ''matchMedia'', ''moveBy'', ''moveTo'', ''open'', ''openDialog'', ''postMessage'',
      ''print'', ''prompt'', ''removeEventListener'', ''requestAnimationFrame'',
      ''resizeBy'', ''resizeTo'', ''scroll'', ''scrollBy'', ''scrollByLines'',
      ''scrollByPages'', ''scrollTo'', ''setInterval'', ''setTimeout'', ''stop'']"

text \<open>The three loops of \<^verbatim>\<open>getWrapper\<close> that fill the new object with data properties.\<close>

definition block :: "string \<Rightarrow> (string \<Rightarrow> wprop option) \<Rightarrow> (string \<Rightarrow> wprop option)" where
  "block name obj = obj(name \<mapsto> Data Undefined)"

definition copy_direct ::
  "(string \<Rightarrow> val) \<Rightarrow> string \<Rightarrow> (string \<Rightarrow> wprop option) \<Rightarrow> (string \<Rightarrow> wprop option)" where
  "copy_direct unsafeWindow name obj = obj(name \<mapsto> Data (unsafeWindow name))"

definition bind_method ::
  "(string \<Rightarrow> val) \<Rightarrow> string \<Rightarrow> (string \<Rightarrow> wprop option) \<Rightarrow> (string \<Rightarrow> wprop option)" where
  "bind_method unsafeWindow name obj =
     (let method = unsafeWindow name
      in if truthy method then obj(name \<mapsto> Data (BoundFn method)) else obj)"

text \<open>
  The last loop, over \<^verbatim>\<open>bridge.props\<close>: a name that is already \<^verbatim>\<open>in wrapper\<close> is skipped,
  a name whose first two characters are \<^verbatim>\<open>on\<close> gets the accessor of
  \<^verbatim>\<open>defineReactedProperty\<close>, any other name that of \<^verbatim>\<open>defineProtectedProperty\<close>, whose
  closure variables start as \<^verbatim>\<open>modified = false\<close> and \<^verbatim>\<open>value\<close> undefined.
\<close>

definition wrap_property :: "string \<Rightarrow> (string \<Rightarrow> wprop option) \<Rightarrow> (string \<Rightarrow> wprop option)" where
  "wrap_property name obj =
     (if obj name \<noteq> None then obj
      else if take 2 name = ''on'' then obj(name \<mapsto> Reacted)
      else obj(name \<mapsto> Protected False Undefined))"

definition base_wrapper :: "(string \<Rightarrow> val) \<Rightarrow> (string \<Rightarrow> wprop option)" where
  "base_wrapper unsafeWindow =
     fold (bind_method unsafeWindow) bound_names
       (fold (copy_direct unsafeWindow) direct_names
          (fold block blocked_names Map.empty))"

text \<open>
  \<^verbatim>\<open>getWrapper(unsafeWindow)\<close>: the new object gets the next free address; the result is
  the address.
\<close>

definition getWrapper :: "world \<Rightarrow> nat \<times> world" where
  "getWrapper w =
     (let a = heap_next w;
          obj = fold wrap_property (bridge_props w) (base_wrapper (global w))
      in (a, w\<lparr>heap_next := Suc a, views := (views w)(a \<mapsto> obj)\<rparr>))"



definition view_set :: "nat \<Rightarrow> string \<Rightarrow> val \<Rightarrow> world \<Rightarrow> world" where
  "view_set a name v w =
     (case views w a of
        None \<Rightarrow> w
      | Some obj \<Rightarrow>
          (case obj name of
             None \<Rightarrow> w\<lparr>views := (views w)(a \<mapsto> obj(name \<mapsto> Data v))\<rparr>
           | Some (Data old) \<Rightarrow> w\<lparr>views := (views w)(a \<mapsto> obj(name \<mapsto> Data v))\<rparr>
           | Some (Protected modified value) \<Rightarrow>
               w\<lparr>views := (views w)(a \<mapsto> obj(name \<mapsto> Protected True v))\<rparr>
           | Some Reacted \<Rightarrow> w\<lparr>global := (global w)(name := v)\<rparr>))"

subsection \<open>The GM object\<close>

text \<open>The keys of the table \<^verbatim>\<open>gmFunctions\<close>, in the order of the source.\<close>

definition api_names :: "string list" where
  "api_names =
     [''GM_deleteValue'', ''GM_getValue'', ''GM_listValues'', ''GM_setValue'',
      ''GM_getResourceText'', ''GM_getResourceURL'', ''GM_addStyle'', ''GM_log'',
      ''GM_openInTab'', ''GM_registerMenuCommand'', ''GM_unregisterMenuCommand'',
      ''GM_xmlhttpRequest'', ''GM_download'', ''GM_notification'', ''GM_setClipboard'',
      ''AWE_engineStatus'', ''AWE_startJsPlayer'', ''AWE_getAvailablePlayers'',
      ''AWE_openInPlayer'', ''AWE_getDeviceId'', ''AWE_registerContextMenuCommand'',
      ''AWE_getLocale'', ''AWE_getConfig'']"

definition gm_names :: "string list" where
  "gm_names = ''unsafeWindow'' # ''GM_info'' # api_names"

definition gmFunctions :: "string \<Rightarrow> gm_info \<Rightarrow> string \<Rightarrow> gmval option" where
  "gmFunctions sid info name =
     (if name = ''unsafeWindow'' then Some (GVal GlobalRef)
      else if name = ''GM_info'' then Some (GInfo info)
      else if name \<in> set api_names then Some (GFunc name sid)
      else None)"

text \<open>
  \<^verbatim>\<open>addProperty(name, prop, obj)\<close> sets \<^verbatim>\<open>writable\<close> and \<^verbatim>\<open>configurable\<close> of the descriptor
  to false and calls \<^verbatim>\<open>Object.defineProperty\<close>. For such a descriptor
  \<^verbatim>\<open>Object.defineProperty\<close> adds the property at the end when the object lacks it (not
  enumerable), redefines a configurable one, and on a property that is not configurable
  it throws a TypeError unless that property is writable or already holds the same value.
\<close>

definition made :: "gmval \<Rightarrow> gm_prop" where
  "made v = \<lparr>p_value = v, p_writable = False, p_enumerable = False, p_configurable = False\<rparr>"

definition addProperty ::
  "string \<Rightarrow> gmval \<Rightarrow> (string \<times> gm_prop) list \<Rightarrow> (string \<times> gm_prop) list outcome" where
  "addProperty name v obj =
     (case map_of obj name of
        None \<Rightarrow> Return (obj @ [(name, made v)])
      | Some cur \<Rightarrow>
          if p_configurable cur \<or> p_writable cur \<or> p_value cur = v
          then Return (AList.update name
                 (cur\<lparr>p_value := v, p_writable := False, p_configurable := False\<rparr>) obj)
          else Raise ''TypeError'')"

text \<open>
  \<^verbatim>\<open>forEach(grant, name => { const prop = gmFunctions[name];
                             if (prop) addProperty(name, prop, gm); })\<close>
\<close>

fun add_granted ::
  "(string \<Rightarrow> gmval option) \<Rightarrow> string list \<Rightarrow> (string \<times> gm_prop) list
     \<Rightarrow> (string \<times> gm_prop) list outcome" where
  "add_granted table [] gm = Return gm"
| "add_granted table (name # names) gm =
     (case table name of
        None \<Rightarrow> add_granted table names gm
      | Some prop \<Rightarrow>
          (case addProperty name prop gm of
             Raise e \<Rightarrow> Raise e
           | Return gm' \<Rightarrow> add_granted table names gm'))"

text \<open>\<^verbatim>\<open>x || ''\<close> on a field that may be missing.\<close>

definition or_empty :: "string option \<Rightarrow> string" where
  "or_empty x = (case x of None \<Rightarrow> [] | Some s \<Rightarrow> s)"

definition gmInfo :: "script \<Rightarrow> string \<Rightarrow> world \<Rightarrow> gm_info" where
  "gmInfo script code w =
     \<lparr>i_uuid = s_uuid script,
      i_scriptMetaStr = or_empty (header_of w code),
      i_scriptWillUpdate = s_shouldUpdate script,
      i_scriptHandler = ''AceScript'',
      i_engine_version = bridge_version w,
      i_script =
        \<lparr>i_description = or_empty (m_description (s_meta script)),
         i_excludes = m_exclude (s_meta script),
         i_includes = m_include (s_meta script),
         i_matches = m_match (s_meta script),
         i_name = or_empty (m_name (s_meta script)),
         i_namespace = or_empty (m_namespace (s_meta script)),
         i_resources = (case m_resources (s_meta script) of None \<Rightarrow> [] | Some rs \<Rightarrow> rs),
         i_runAt = or_empty (m_runAt (s_meta script)),
         i_unwrap = False,
         i_version = or_empty (m_version (s_meta script))\<rparr>\<rparr>"

text \<open>
  The grant array. \<open>declared\<close> is \<^verbatim>\<open>script.meta.grant || []\<close>; \<open>no_grant\<close> is the test
  \<^verbatim>\<open>!grant.length || (grant.length === 1 && grant[0] === 'none')\<close>; \<open>effective\<close> is the
  array after \<^verbatim>\<open>grant.pop()\<close> in that case and the two conditional \<^verbatim>\<open>push\<close>es.
\<close>

definition declared :: "script \<Rightarrow> string list" where
  "declared script = (case m_grant (s_meta script) of None \<Rightarrow> [] | Some g \<Rightarrow> g)"

definition no_grant :: "string list \<Rightarrow> bool" where
  "no_grant grant = (length grant = 0 \<or> (length grant = 1 \<and> grant ! 0 = ''none''))"

definition push_missing :: "string \<Rightarrow> string list \<Rightarrow> string list" where
  "push_missing name grant = (if name \<in> set grant then grant else grant @ [name])"

definition effective :: "string list \<Rightarrow> string list" where
  "effective grant =
     push_missing ''GM_info''
       (push_missing ''unsafeWindow'' (if no_grant grant then butlast grant else grant))"

text \<open>\<^verbatim>\<open>gm.window.close = () => { bridge.post({ cmd: 'TabClose' }); }\<close>\<close>

definition assign_close :: "val \<Rightarrow> world \<Rightarrow> world" where
  "assign_close window w =
     (case window of
        ViewRef a \<Rightarrow> view_set a ''close'' TabCloseFn w
      | _ \<Rightarrow> w\<lparr>global := (global w)(''close'' := TabCloseFn)\<rparr>)"

text \<open>
  \<^verbatim>\<open>wrapGM(script, code, cache)\<close>. The array \<^verbatim>\<open>grant\<close> is the descriptor's own array when
  the descriptor has one, so \<^verbatim>\<open>pop\<close> and \<^verbatim>\<open>push\<close> change the descriptor; the result
  therefore carries the descriptor as the call leaves it. \<^verbatim>\<open>gm.window = ...\<close> is an
  ordinary assignment, which makes a writable, enumerable, configurable property.
\<close>

definition wrapGM ::
  "script \<Rightarrow> string \<Rightarrow> (string \<Rightarrow> string option) \<Rightarrow> world \<Rightarrow> (sandbox \<times> script) outcome \<times> world"
where
  "wrapGM script code cache w =
     (let grant = declared script;
          (this, window, w1) =
            (if no_grant grant then (ThisGM, GlobalRef, w)
             else (let (a, w') = getWrapper w in (ThisView a, ViewRef a, w')));
          gm = [(''window'',
                 \<lparr>p_value = GVal window, p_writable = True, p_enumerable = True,
                  p_configurable = True\<rparr>)];
          grant' = effective grant;
          w2 = (if ''window.close'' \<in> set grant' then assign_close window w1 else w1);
          script' =
            (case m_grant (s_meta script) of
               None \<Rightarrow> script
             | Some g \<Rightarrow> script\<lparr>s_meta := (s_meta script)\<lparr>m_grant := Some grant'\<rparr>\<rparr>)
      in case add_granted (gmFunctions (s_id script) (gmInfo script code w2)) grant' gm of
           Raise e \<Rightarrow> (Raise e, w2)
         | Return gm' \<Rightarrow> (Return (\<lparr>thisObj = this, wrapper = gm'\<rparr>, script'), w2))"

subsection \<open>A property of a view over time\<close>









text \<open>
  The parts of the result of \<^verbatim>\<open>wrapGM\<close> that do not depend on the loop over the grants:
  the \<^verbatim>\<open>this\<close> object, the window binding, the world and the descriptor afterwards.
\<close>

definition window_of :: "script \<Rightarrow> world \<Rightarrow> val" where
  "window_of script w = (if no_grant (declared script) then GlobalRef else ViewRef (heap_next w))"

definition this_of :: "script \<Rightarrow> world \<Rightarrow> this_ref" where
  "this_of script w = (if no_grant (declared script) then ThisGM else ThisView (heap_next w))"

definition world_of :: "script \<Rightarrow> world \<Rightarrow> world" where
  "world_of script w =
     (let w1 = (if no_grant (declared script) then w else snd (getWrapper w))
      in if ''window.close'' \<in> set (effective (declared script))
         then assign_close (window_of script w) w1 else w1)"

definition script_of :: "script \<Rightarrow> script" where
  "script_of script =
     (case m_grant (s_meta script) of
        None \<Rightarrow> script
      | Some g \<Rightarrow> script\<lparr>s_meta := (s_meta script)\<lparr>m_grant := Some (effective g)\<rparr>\<rparr>)"

text \<open>
  A GM object is consistent with a table when each name of the table that it binds is bound
  as \<^verbatim>\<open>addProperty\<close> would bind it.
\<close>

definition consistent :: "(string \<Rightarrow> gmval option) \<Rightarrow> (string \<times> gm_prop) list \<Rightarrow> bool" where
  "consistent table gm = (\<forall>n p v. map_of gm n = Some p \<longrightarrow> table n = Some v \<longrightarrow> p = made v)"

definition returned_script :: "(sandbox \<times> script) outcome \<times> world \<Rightarrow> script option" where
  "returned_script r = (case fst r of Return (sb, s) \<Rightarrow> Some s | Raise e \<Rightarrow> None)"


section \<open>Callback registry\<close>

definition addCallback :: "ufun option \<Rightarrow> world \<Rightarrow> int \<times> world" where
  "addCallback callback w =
     (case callback of
        None \<Rightarrow> (- 1, w)
      | Some f \<Rightarrow>
          (let requestId = lastCallbackId w + 1 in
           (requestId,
            w\<lparr>lastCallbackId := requestId,
              callbacks := (callbacks w)(NumKey requestId \<mapsto> User f)\<rparr>)))"

definition call_ufun :: "ufun \<Rightarrow> val \<Rightarrow> world \<Rightarrow> unit outcome \<times> world" where
  "call_ufun f arg w =
     (if throws f then Raise ''thrown by the script's function'' else Return (),
      w\<lparr>invoked := invoked w @ [(f, arg)]\<rparr>)"

text \<open>\<^verbatim>\<open>xs.forEach(callback => callback(el))\<close>: a throw ends the iteration.\<close>

fun call_each :: "ufun list \<Rightarrow> val \<Rightarrow> world \<Rightarrow> unit outcome \<times> world" where
  "call_each [] arg w = (Return (), w)"
| "call_each (f # fs) arg w =
     (case call_ufun f arg w of
        (Raise e, w') \<Rightarrow> (Raise e, w')
      | (Return u, w') \<Rightarrow> call_each fs arg w')"

definition getElementById :: "val \<Rightarrow> world \<Rightarrow> val" where
  "getElementById styleId w =
     (case styleId of
        StrV s \<Rightarrow> if s \<in> set (elements w) then ElemV s else Null
      | _ \<Rightarrow> Null)"

text \<open>
  \<^verbatim>\<open>Array.prototype.splice\<close> called with no argument: the delete count is 0, so it removes
  nothing and returns the empty array. The result is (removed elements, array afterwards).
\<close>

definition splice_noargs :: "'a list \<Rightarrow> 'a list \<times> 'a list" where
  "splice_noargs xs = ([], xs)"

text \<open>
  The closure that \<^verbatim>\<open>GM_addStyle\<close> registers:
  \<^verbatim>\<open>styleId => { el = document.getElementById(styleId);
                 callbacks.splice().forEach(callback => callback(el)); }\<close>
\<close>

definition style_resolve :: "nat \<Rightarrow> val \<Rightarrow> world \<Rightarrow> unit outcome \<times> world" where
  "style_resolve a styleId w =
     (case styles w a of
        None \<Rightarrow> (Return (), w)
      | Some env \<Rightarrow>
          (let e = getElementById styleId w;
               (removed, rest) = splice_noargs (pending env);
               w1 = w\<lparr>styles := (styles w)(a \<mapsto> env\<lparr>el := e, pending := rest\<rparr>)\<rparr>
           in call_each removed e w1))"

fun run_cont :: "cont \<Rightarrow> val \<Rightarrow> world \<Rightarrow> unit outcome \<times> world" where
  "run_cont (UserCont f) payload w = call_ufun f payload w"
| "run_cont (StyleCont a) payload w = style_resolve a payload w"

text \<open>
  Calling a function stored in \<^verbatim>\<open>store.callbacks\<close>. For the one-shot wrapper the
  statements run in the order of the source: first \<^verbatim>\<open>callback(payload)\<close>, then
  \<^verbatim>\<open>delete store.callbacks[callbackId]\<close>, which a throw of the first skips.
\<close>

fun apply_callback :: "callback \<Rightarrow> val \<Rightarrow> world \<Rightarrow> unit outcome \<times> world" where
  "apply_callback (User f) payload w = call_ufun f payload w"
| "apply_callback (OneShot callbackId c) payload w =
     (case run_cont c payload w of
        (Raise e, w') \<Rightarrow> (Raise e, w')
      | (Return u, w') \<Rightarrow> (Return (), w'\<lparr>callbacks := (callbacks w')(callbackId := None)\<rparr>))"

definition handleCallback :: "key \<Rightarrow> val \<Rightarrow> world \<Rightarrow> unit outcome \<times> world" where
  "handleCallback requestId result w =
     (if truthy_key requestId
      then (case callbacks w requestId of
              None \<Rightarrow> (Return (), w)
            | Some callback \<Rightarrow>
                apply_callback callback result
                  (w\<lparr>callbacks := (callbacks w)(requestId := None)\<rparr>))
      else (Return (), w))"

definition postCommandWithCallback :: "string \<Rightarrow> ufun option \<Rightarrow> val \<Rightarrow> world \<Rightarrow> world" where
  "postCommandWithCallback cmd callback data w =
     (let (requestId, w1) = addCallback callback w
      in post (PostCommand cmd requestId data) w1)"

definition registerCallback :: "cont \<Rightarrow> world \<Rightarrow> uid \<times> world" where
  "registerCallback callback w =
     (let (callbackId, w1) = getUniqId ''VMcb'' w
      in (callbackId,
          w1\<lparr>callbacks := (callbacks w1)(UidKey callbackId \<mapsto> OneShot (UidKey callbackId) callback)\<rparr>))"

text \<open>The entries \<^verbatim>\<open>Callback\<close> and \<^verbatim>\<open>CommandResponse\<close> of the handler table.\<close>

definition handlers_Callback :: "key \<Rightarrow> val \<Rightarrow> world \<Rightarrow> unit outcome \<times> world" where
  "handlers_Callback callbackId payload w =
     (case callbacks w callbackId of
        None \<Rightarrow> (Return (), w)
      | Some f \<Rightarrow> apply_callback f payload w)"

definition handlers_CommandResponse :: "val \<Rightarrow> key \<Rightarrow> world \<Rightarrow> unit outcome \<times> world" where
  "handlers_CommandResponse result requestId w = handleCallback requestId result w"

subsection \<open>Style injection\<close>

text \<open>
  \<^verbatim>\<open>GM_addStyle(css)\<close> allocates its closure variables \<^verbatim>\<open>callbacks\<close> and \<^verbatim>\<open>el\<close>, registers
  the one-shot callback, posts \<^verbatim>\<open>AddStyle\<close> and returns the thenable, which is given here by
  the address of the closure variables. \<open>thenable_then\<close> is its method \<^verbatim>\<open>then\<close>.
\<close>

definition GM_addStyle :: "string \<Rightarrow> world \<Rightarrow> nat \<times> world" where
  "GM_addStyle css w =
     (let a = heap_next w;
          w1 = w\<lparr>heap_next := Suc a,
                 styles := (styles w)(a \<mapsto> \<lparr>el = BoolV False, pending = []\<rparr>)\<rparr>;
          (callbackId, w2) = registerCallback (StyleCont a) w1
      in (a, post (AddStyle css callbackId) w2))"

definition thenable_then :: "nat \<Rightarrow> ufun \<Rightarrow> world \<Rightarrow> unit outcome \<times> world" where
  "thenable_then a callback w =
     (case styles w a of
        None \<Rightarrow> (Return (), w)
      | Some env \<Rightarrow>
          if el env \<noteq> BoolV False then call_ufun callback (el env) w
          else (Return (), w\<lparr>styles := (styles w)(a \<mapsto> env\<lparr>pending := pending env @ [callback]\<rparr>)\<rparr>))"

subsection \<open>Sessions\<close>

text \<open>
  What the registry sees during a page's session is a sequence of calls: capability
  implementations asking for a request id, the host's \<^verbatim>\<open>CommandResponse\<close> and \<^verbatim>\<open>Callback\<close>
  messages, one-shot registrations, and the style capability. A throw ends the call in
  which it happens; the session goes on from the world it left. \<open>session\<close> returns the
  values that the calls of \<^verbatim>\<open>addCallback\<close> returned, in order.
\<close>

datatype op =
    OpAddCallback "ufun option"
  | OpHandleCallback key val
  | OpRegisterCallback cont
  | OpCallback key val
  | OpAddStyle string
  | OpThen nat ufun

fun step :: "op \<Rightarrow> world \<Rightarrow> int list \<times> world" where
  "step (OpAddCallback callback) w = ([fst (addCallback callback w)], snd (addCallback callback w))"
| "step (OpHandleCallback requestId result) w = ([], snd (handleCallback requestId result w))"
| "step (OpRegisterCallback c) w = ([], snd (registerCallback c w))"
| "step (OpCallback callbackId payload) w = ([], snd (handlers_Callback callbackId payload w))"
| "step (OpAddStyle css) w = ([], snd (GM_addStyle css w))"
| "step (OpThen a callback) w = ([], snd (thenable_then a callback w))"

fun session :: "op list \<Rightarrow> world \<Rightarrow> int list \<times> world" where
  "session [] w = ([], w)"
| "session (x # xs) w =
     (fst (step x w) @ fst (session xs (snd (step x w))), snd (session xs (snd (step x w))))"

fun callable_add :: "op \<Rightarrow> bool" where
  "callable_add (OpAddCallback (Some f)) = True"
| "callable_add x = False"

text \<open>The integers that are keys of the registry.\<close>

definition numkeys :: "world \<Rightarrow> int set" where
  "numkeys w = {n. callbacks w (NumKey n) \<noteq> None}"

text \<open>
  The invariant of the registry: every integer key was allocated, so it lies between 1 and
  \<open>lastCallbackId\<close>.
\<close>

definition registry_ok :: "world \<Rightarrow> bool" where
  "registry_ok w = (0 \<le> lastCallbackId w \<and> (\<forall>n \<in> numkeys w. 1 \<le> n \<and> n \<le> lastCallbackId w))"

subsection \<open>Properties of the registry\<close>

lemma call_ufun_frame [simp]:
  "callbacks (snd (call_ufun f a w)) = callbacks w"
  "lastCallbackId (snd (call_ufun f a w)) = lastCallbackId w"
  by (simp_all add: call_ufun_def)

lemma call_each_frame [simp]:
  "callbacks (snd (call_each fs a w)) = callbacks w \<and>
   lastCallbackId (snd (call_each fs a w)) = lastCallbackId w"
proof (induction fs arbitrary: w)
  case Nil
  show ?case by simp
next
  case (Cons f fs)
  show ?case
  proof (cases "call_ufun f a w")
    case (Pair r w')
    have fr: "callbacks w' = callbacks w" "lastCallbackId w' = lastCallbackId w"
      using call_ufun_frame [of f a w] Pair by simp_all
    show ?thesis
      using Cons [of w'] Pair fr by (cases r) simp_all
  qed
qed

lemma style_resolve_frame [simp]:
  "callbacks (snd (style_resolve a p w)) = callbacks w"
  "lastCallbackId (snd (style_resolve a p w)) = lastCallbackId w"
  by (simp_all add: style_resolve_def splice_noargs_def split: option.splits)

lemma run_cont_frame [simp]:
  "callbacks (snd (run_cont c p w)) = callbacks w"
  "lastCallbackId (snd (run_cont c p w)) = lastCallbackId w"
  by (cases c; simp)+

lemma apply_callback_last [simp]:
  "lastCallbackId (snd (apply_callback cb p w)) = lastCallbackId w"
proof (cases cb)
  case (User f)
  then show ?thesis by simp
next
  case (OneShot k c)
  show ?thesis
  proof (cases "run_cont c p w")
    case (Pair r w')
    have "lastCallbackId w' = lastCallbackId w"
      using run_cont_frame(2) [of c p w] Pair by simp
    then show ?thesis using OneShot Pair by (cases r) simp_all
  qed
qed

lemma apply_callback_numkeys:
  "numkeys (snd (apply_callback cb p w)) \<subseteq> numkeys w"
proof (cases cb)
  case (User f)
  then show ?thesis by (simp add: numkeys_def)
next
  case (OneShot k c)
  show ?thesis
  proof (cases "run_cont c p w")
    case (Pair r w')
    have "callbacks w' = callbacks w"
      using run_cont_frame(1) [of c p w] Pair by simp
    then show ?thesis using OneShot Pair by (cases r) (auto simp: numkeys_def)
  qed
qed

lemma handleCallback_last [simp]:
  "lastCallbackId (snd (handleCallback k r w)) = lastCallbackId w"
  by (simp add: handleCallback_def split: option.splits)

lemma handleCallback_numkeys:
  "numkeys (snd (handleCallback k r w)) \<subseteq> numkeys w"
proof (cases "truthy_key k")
  case False
  then show ?thesis by (simp add: handleCallback_def)
next
  case True
  show ?thesis
  proof (cases "callbacks w k")
    case None
    then show ?thesis by (simp add: handleCallback_def)
  next
    case (Some cb)
    let ?w = "w\<lparr>callbacks := (callbacks w)(k := None)\<rparr>"
    have "numkeys ?w \<subseteq> numkeys w"
      by (auto simp: numkeys_def)
    moreover have "numkeys (snd (apply_callback cb r ?w)) \<subseteq> numkeys ?w"
      by (rule apply_callback_numkeys)
    ultimately show ?thesis
      using True Some by (simp add: handleCallback_def)
  qed
qed

lemma handlers_Callback_last [simp]:
  "lastCallbackId (snd (handlers_Callback k r w)) = lastCallbackId w"
  by (simp add: handlers_Callback_def split: option.splits)

lemma handlers_Callback_numkeys:
  "numkeys (snd (handlers_Callback k r w)) \<subseteq> numkeys w"
  using apply_callback_numkeys
  by (auto simp: handlers_Callback_def split: option.splits)

lemma registerCallback_frame [simp]:
  "lastCallbackId (snd (registerCallback c w)) = lastCallbackId w"
  "numkeys (snd (registerCallback c w)) = numkeys w"
  by (simp_all add: registerCallback_def getUniqId_def numkeys_def)

lemma GM_addStyle_frame [simp]:
  "lastCallbackId (snd (GM_addStyle css w)) = lastCallbackId w"
  "numkeys (snd (GM_addStyle css w)) = numkeys w"
  by (simp_all add: GM_addStyle_def registerCallback_def getUniqId_def numkeys_def post_def Let_def)

lemma thenable_then_frame [simp]:
  "lastCallbackId (snd (thenable_then a f w)) = lastCallbackId w"
  "numkeys (snd (thenable_then a f w)) = numkeys w"
  by (simp_all add: thenable_then_def numkeys_def split: option.splits)

lemma addCallback_None [simp]: "addCallback None w = (- 1, w)"
  by (simp add: addCallback_def)

lemma addCallback_Some:
  "addCallback (Some f) w =
     (lastCallbackId w + 1,
      w\<lparr>lastCallbackId := lastCallbackId w + 1,
        callbacks := (callbacks w)(NumKey (lastCallbackId w + 1) \<mapsto> User f)\<rparr>)"
  by (simp add: addCallback_def Let_def)

lemma registry_ok_shrink:
  "registry_ok w \<Longrightarrow> numkeys w' \<subseteq> numkeys w \<Longrightarrow> lastCallbackId w' = lastCallbackId w
     \<Longrightarrow> registry_ok w'"
  by (auto simp: registry_ok_def)

lemma registry_ok_addCallback:
  "registry_ok w \<Longrightarrow> registry_ok (snd (addCallback cb w))"
  by (cases cb) (auto simp: registry_ok_def addCallback_Some numkeys_def)

lemma step_registry_ok: "registry_ok w \<Longrightarrow> registry_ok (snd (step x w))"
proof (cases x)
  case (OpAddCallback cb)
  then show ?thesis if "registry_ok w"
    using registry_ok_addCallback [OF that, of cb] by simp
next
  case (OpHandleCallback k r)
  then show ?thesis if "registry_ok w"
    using registry_ok_shrink [OF that handleCallback_numkeys] by simp
next
  case (OpRegisterCallback c)
  then show ?thesis if "registry_ok w"
    using registry_ok_shrink [OF that] by simp
next
  case (OpCallback k p)
  then show ?thesis if "registry_ok w"
    using registry_ok_shrink [OF that handlers_Callback_numkeys] by simp
next
  case (OpAddStyle css)
  then show ?thesis if "registry_ok w"
    using registry_ok_shrink [OF that] by simp
next
  case (OpThen a f)
  then show ?thesis if "registry_ok w"
    using registry_ok_shrink [OF that] by simp
qed

lemma session_registry_ok:
  "registry_ok w \<Longrightarrow> registry_ok (snd (session ops w))"
  by (induction ops arbitrary: w) (simp_all add: step_registry_ok)

lemma step_last:
  "lastCallbackId (snd (step x w)) = lastCallbackId w + (if callable_add x then 1 else 0)"
proof (cases x)
  case (OpAddCallback cb)
  then show ?thesis by (cases cb) (simp_all add: addCallback_Some)
qed simp_all

lemma step_ids:
  "filter (\<lambda>i. i \<noteq> - 1) (fst (step x w)) =
     (if callable_add x then [lastCallbackId w + 1] else [])"
  if "0 \<le> lastCallbackId w"
proof (cases x)
  case (OpAddCallback cb)
  then show ?thesis using that by (cases cb) (simp_all add: addCallback_Some)
qed simp_all

lemma upt_from_1: "[1..<Suc (Suc n)] = 1 # map Suc [1..<Suc n]"
  unfolding map_Suc_upt by (rule upt_conv_Cons) simp

lemma session_ids:
  "0 \<le> lastCallbackId w \<Longrightarrow>
   filter (\<lambda>i. i \<noteq> - 1) (fst (session ops w)) =
     map (\<lambda>i. lastCallbackId w + int i) [1..<Suc (length (filter callable_add ops))]"
proof (induction ops arbitrary: w)
  case Nil
  show ?case by simp
next
  case (Cons x xs)
  let ?w1 = "snd (step x w)"
  let ?k = "length (filter callable_add xs)"
  have l: "lastCallbackId ?w1 = lastCallbackId w + (if callable_add x then 1 else 0)"
    by (rule step_last)
  then have "0 \<le> lastCallbackId ?w1" using Cons.prems by simp
  then have ih: "filter (\<lambda>i. i \<noteq> - 1) (fst (session xs ?w1)) =
     map (\<lambda>i. lastCallbackId ?w1 + int i) [1..<Suc ?k]"
    by (rule Cons.IH)
  have split: "filter (\<lambda>i. i \<noteq> - 1) (fst (session (x # xs) w)) =
      filter (\<lambda>i. i \<noteq> - 1) (fst (step x w)) @ filter (\<lambda>i. i \<noteq> - 1) (fst (session xs ?w1))"
    by simp
  show ?case
  proof (cases "callable_add x")
    case True
    have "map (\<lambda>i. lastCallbackId w + int i) [1..<Suc (Suc ?k)] =
        (lastCallbackId w + 1) # map (\<lambda>i. lastCallbackId w + 1 + int i) [1..<Suc ?k]"
      unfolding upt_from_1 by (simp add: comp_def add.commute add.left_commute del: upt_Suc)
    then show ?thesis
      unfolding split ih using True l step_ids [OF Cons.prems, of x]
      by (simp del: upt_Suc)
  next
    case False
    then show ?thesis
      unfolding split ih using l step_ids [OF Cons.prems, of x] by (simp del: upt_Suc)
  qed
qed

lemma handleCallback_unregistered:
  "callbacks w k = None \<Longrightarrow> handleCallback k r w = (Return (), w)"
  by (simp add: handleCallback_def)

lemma handleCallback_zero: "handleCallback (NumKey 0) r w = (Return (), w)"
  by (simp add: handleCallback_def)

lemma registry_ok_not_key:
  "registry_ok w \<Longrightarrow> n < 1 \<Longrightarrow> callbacks w (NumKey n) = None"
  by (auto simp: registry_ok_def numkeys_def)

text \<open>
  C10. In a session that starts from an empty registry with \<open>lastCallbackId = 0\<close>, the ids
  that \<^verbatim>\<open>addCallback\<close> returns for callable arguments are 1, 2, 3, ... in the order of the
  calls, so they are positive, strictly increasing and never handed out twice; a
  non-callable argument gets the sentinel \<open>-1\<close>; neither 0 nor \<open>-1\<close> is ever a key of the
  registry, and \<^verbatim>\<open>handleCallback\<close> with 0 or \<open>-1\<close> returns without calling anything and
  leaves the world as it is.
\<close>

theorem request_ids_never_recycled:
  assumes "lastCallbackId w = 0" and "callbacks w = Map.empty"
  shows "filter (\<lambda>i. i \<noteq> - 1) (fst (session ops w))
           = map int [1..<Suc (length (filter callable_add ops))]
    \<and> fst (addCallback None (snd (session ops w))) = - 1
    \<and> NumKey 0 \<notin> dom (callbacks (snd (session ops w)))
    \<and> NumKey (- 1) \<notin> dom (callbacks (snd (session ops w)))
    \<and> handleCallback (NumKey 0) r (snd (session ops w)) = (Return (), snd (session ops w))
    \<and> handleCallback (NumKey (- 1)) r (snd (session ops w)) = (Return (), snd (session ops w))"
proof -
  have ok0: "registry_ok w" using assms by (simp add: registry_ok_def numkeys_def)
  then have ok: "registry_ok (snd (session ops w))" by (rule session_registry_ok)
  have k0: "callbacks (snd (session ops w)) (NumKey 0) = None"
    using registry_ok_not_key [OF ok, of 0] by simp
  have k1: "callbacks (snd (session ops w)) (NumKey (- 1)) = None"
    using registry_ok_not_key [OF ok, of "- 1"] by simp
  have ids: "filter (\<lambda>i. i \<noteq> - 1) (fst (session ops w))
               = map int [1..<Suc (length (filter callable_add ops))]"
    using session_ids [of w ops] assms(1) by simp
  show ?thesis
    using ids k0 k1 handleCallback_unregistered [OF k0] handleCallback_unregistered [OF k1]
    by (simp add: domIff)
qed

theorem request_ids_never_recycled_witness:
  "lastCallbackId world0 = 0 \<and> callbacks world0 = Map.empty
   \<and> filter (\<lambda>i. i \<noteq> - 1)
        (fst (session [OpAddCallback (Some (UFun 1 False)), OpAddCallback None,
                       OpHandleCallback (NumKey 1) Null, OpAddCallback (Some (UFun 2 True))] world0))
       = [1, 2]
   \<and> handleCallback (NumKey (- 1)) Null
        (snd (session [OpAddCallback (Some (UFun 1 False)), OpAddCallback None,
                       OpHandleCallback (NumKey 1) Null, OpAddCallback (Some (UFun 2 True))] world0))
       = (Return (),
          snd (session [OpAddCallback (Some (UFun 1 False)), OpAddCallback None,
                        OpHandleCallback (NumKey 1) Null, OpAddCallback (Some (UFun 2 True))] world0))"
proof -
  have h1: "lastCallbackId world0 = 0" by (simp add: world0_def)
  have h2: "callbacks world0 = Map.empty" by (simp add: world0_def)
  show ?thesis
    using h1 h2
      request_ids_never_recycled [OF h1 h2,
        of "[OpAddCallback (Some (UFun 1 False)), OpAddCallback None,
             OpHandleCallback (NumKey 1) Null, OpAddCallback (Some (UFun 2 True))]" Null]
    by simp
qed

subsection \<open>One-shot callbacks\<close>

text \<open>
  A one-shot entry whose continuation returns is removed after the call, so a second
  \<^verbatim>\<open>Callback\<close> message with the same id finds nothing.
\<close>

lemma one_shot_returning:
  "\<not> throws f \<Longrightarrow> callbacks w k = Some (OneShot k (UserCont f)) \<Longrightarrow>
   handlers_Callback k p w =
     (Return (), w\<lparr>invoked := invoked w @ [(f, p)], callbacks := (callbacks w)(k := None)\<rparr>)"
  by (simp add: handlers_Callback_def call_ufun_def)

text \<open>A continuation that throws leaves its entry in the registry.\<close>

lemma one_shot_throwing:
  "throws f \<Longrightarrow> callbacks w k = Some (OneShot k (UserCont f)) \<Longrightarrow>
   handlers_Callback k p w =
     (Raise ''thrown by the script's function'', w\<lparr>invoked := invoked w @ [(f, p)]\<rparr>)"
  by (simp add: handlers_Callback_def call_ufun_def)


subsection \<open>The thenable of the style capability\<close>

text \<open>
  C8. The claim says that every callback given to \<^verbatim>\<open>then\<close> before the host reports the
  style element is called with the element when the one-shot callback fires. The closure
  iterates over \<^verbatim>\<open>callbacks.splice()\<close>, which is the empty array, so it calls none of them.
  Evaluated on a page that has the element \<^verbatim>\<open>s1\<close>: a callback given before the report is
  not called when the report arrives and stays in the array; one given after the report
  is called at once with the element.
\<close>

theorem addStyle_pending_never_called:
  "invoked (snd (session
        [OpAddStyle ''body {}'',
         OpThen 0 (UFun 3 False),
         OpCallback (UidKey (Uid ''VMcb'' 0)) (StrV ''s1'')] (world0\<lparr>elements := [''s1'']\<rparr>)))
      = []
   \<and> styles (snd (session
        [OpAddStyle ''body {}'',
         OpThen 0 (UFun 3 False),
         OpCallback (UidKey (Uid ''VMcb'' 0)) (StrV ''s1'')] (world0\<lparr>elements := [''s1'']\<rparr>))) 0
      = Some \<lparr>el = ElemV ''s1'', pending = [UFun 3 False]\<rparr>
   \<and> invoked (snd (session
        [OpAddStyle ''body {}'',
         OpThen 0 (UFun 3 False),
         OpCallback (UidKey (Uid ''VMcb'' 0)) (StrV ''s1''),
         OpThen 0 (UFun 4 False)] (world0\<lparr>elements := [''s1'']\<rparr>)))
      = [(UFun 4 False, ElemV ''s1'')]"
  by (simp add: world0_def GM_addStyle_def registerCallback_def getUniqId_def post_def
      handlers_Callback_def call_ufun_def thenable_then_def style_resolve_def
      splice_noargs_def getElementById_def Let_def)

section \<open>Properties of the value store\<close>






section \<open>Properties of the sandbox builder\<close>

subsection \<open>The loop over the grants\<close>

lemma addProperty_made:
  assumes "\<forall>p. map_of gm n = Some p \<longrightarrow> p = made v"
  shows "\<exists>gm'. addProperty n v gm = Return gm' \<and> map_of gm' = (map_of gm)(n \<mapsto> made v)"
proof (cases "map_of gm n")
  case None
  then show ?thesis
    by (auto simp: addProperty_def map_add_def fun_eq_iff split: option.splits)
next
  case (Some cur)
  then have "cur = made v" using assms by simp
  then show ?thesis
    using Some by (simp add: addProperty_def made_def update_conv')
qed

lemma add_granted_map:
  "consistent table gm \<Longrightarrow>
   \<exists>gm'. add_granted table names gm = Return gm' \<and>
     map_of gm' = (\<lambda>n. if n \<in> set names \<and> table n \<noteq> None then map_option made (table n)
                        else map_of gm n)"
proof (induction names arbitrary: gm)
  case Nil
  show ?case by simp
next
  case (Cons name names)
  show ?case
  proof (cases "table name")
    case None
    obtain gm' where g: "add_granted table names gm = Return gm'"
      "map_of gm' = (\<lambda>n. if n \<in> set names \<and> table n \<noteq> None then map_option made (table n)
                        else map_of gm n)"
      using Cons.IH [OF Cons.prems] by blast
    have "map_of gm' = (\<lambda>n. if n \<in> set (name # names) \<and> table n \<noteq> None
                              then map_option made (table n) else map_of gm n)"
      unfolding g(2) using None by (auto simp: fun_eq_iff)
    then show ?thesis using None g(1) by simp
  next
    case (Some v)
    have "\<forall>p. map_of gm name = Some p \<longrightarrow> p = made v"
      using Cons.prems Some by (auto simp: consistent_def)
    then obtain gm1 where g1: "addProperty name v gm = Return gm1"
      "map_of gm1 = (map_of gm)(name \<mapsto> made v)"
      using addProperty_made by blast
    have "consistent table gm1"
      using Cons.prems Some unfolding consistent_def g1(2) by auto
    then obtain gm' where g: "add_granted table names gm1 = Return gm'"
      "map_of gm' = (\<lambda>n. if n \<in> set names \<and> table n \<noteq> None then map_option made (table n)
                        else map_of gm1 n)"
      using Cons.IH by blast
    have "map_of gm' = (\<lambda>n. if n \<in> set (name # names) \<and> table n \<noteq> None
                              then map_option made (table n) else map_of gm n)"
      unfolding g(2) g1(2) using Some by (auto simp: fun_eq_iff)
    then show ?thesis using Some g1(1) g(1) by simp
  qed
qed

lemma gmFunctions_known: "gmFunctions sid info n \<noteq> None \<longleftrightarrow> n \<in> set gm_names"
  by (simp add: gmFunctions_def gm_names_def)

lemma window_not_gm_name: "''window'' \<notin> set gm_names"
  by (simp add: gm_names_def api_names_def)


lemma implicit_gm_names: "''unsafeWindow'' \<in> set gm_names" "''GM_info'' \<in> set gm_names"
  by (simp_all add: gm_names_def)

lemma no_grant_iff: "no_grant grant \<longleftrightarrow> grant = [] \<or> grant = [''none'']"
  by (cases grant; cases "tl grant") (auto simp: no_grant_def)



subsection \<open>What wrapGM returns\<close>

lemma wrapGM_unfold:
  "wrapGM script code cache w =
     (case add_granted (gmFunctions (s_id script) (gmInfo script code (world_of script w)))
             (effective (declared script))
             [(''window'', \<lparr>p_value = GVal (window_of script w), p_writable = True,
                  p_enumerable = True, p_configurable = True\<rparr>)] of
        Raise e \<Rightarrow> (Raise e, world_of script w)
      | Return gm' \<Rightarrow>
          (Return (\<lparr>thisObj = this_of script w, wrapper = gm'\<rparr>, script_of script),
           world_of script w))"
proof (cases "no_grant (declared script)")
  case True
  then show ?thesis
    by (cases "''window.close'' \<in> set (effective (declared script))")
      (simp_all add: wrapGM_def Let_def window_of_def this_of_def world_of_def script_of_def
        declared_def split: option.splits outcome.splits)
next
  case False
  then show ?thesis
    by (cases "''window.close'' \<in> set (effective (declared script))")
      (simp_all add: wrapGM_def Let_def window_of_def this_of_def world_of_def script_of_def
        declared_def getWrapper_def split: option.splits outcome.splits)
qed

lemma wrapGM_result:
  "\<exists>gm. wrapGM script code cache w =
          (Return (\<lparr>thisObj = this_of script w, wrapper = gm\<rparr>, script_of script), world_of script w)
     \<and> map_of gm = (\<lambda>n. if n \<in> set (effective (declared script)) \<and> n \<in> set gm_names
                         then map_option made
                                (gmFunctions (s_id script) (gmInfo script code (world_of script w)) n)
                         else if n = ''window''
                         then Some \<lparr>p_value = GVal (window_of script w), p_writable = True,
                                    p_enumerable = True, p_configurable = True\<rparr>
                         else None)"
proof -
  let ?table = "gmFunctions (s_id script) (gmInfo script code (world_of script w))"
  let ?gm0 = "[(''window'', \<lparr>p_value = GVal (window_of script w), p_writable = True,
                  p_enumerable = True, p_configurable = True\<rparr>)]"
  have "?table ''window'' = None"
    using gmFunctions_known window_not_gm_name by blast
  then have "consistent ?table ?gm0"
    by (simp add: consistent_def)
  then obtain gm where g: "add_granted ?table (effective (declared script)) ?gm0 = Return gm"
    "map_of gm = (\<lambda>n. if n \<in> set (effective (declared script)) \<and> ?table n \<noteq> None
                       then map_option made (?table n) else map_of ?gm0 n)"
    using add_granted_map by blast
  have m: "map_of gm = (\<lambda>n. if n \<in> set (effective (declared script)) \<and> n \<in> set gm_names
                         then map_option made (?table n)
                         else if n = ''window''
                         then Some \<lparr>p_value = GVal (window_of script w), p_writable = True,
                                    p_enumerable = True, p_configurable = True\<rparr>
                         else None)"
    unfolding g(2) gmFunctions_known by (auto simp: fun_eq_iff)
  have "wrapGM script code cache w =
          (Return (\<lparr>thisObj = this_of script w, wrapper = gm\<rparr>, script_of script), world_of script w)"
    unfolding wrapGM_unfold g(1) by simp
  then show ?thesis using m by blast
qed

lemma view_set_keeps_view: "views w a \<noteq> None \<Longrightarrow> views (view_set b n v w) a \<noteq> None"
  by (auto simp: view_set_def split: option.splits wprop.splits)

lemma views_world_of:
  "\<not> no_grant (declared script) \<Longrightarrow> views (world_of script w) (heap_next w) \<noteq> None"
proof -
  have "views (snd (getWrapper w)) (heap_next w) \<noteq> None"
    by (simp add: getWrapper_def Let_def)
  then show ?thesis if "\<not> no_grant (declared script)"
    using that view_set_keeps_view
    by (simp add: world_of_def Let_def assign_close_def window_of_def)
qed

lemma views_world_of_trusted:
  "no_grant (declared script) \<Longrightarrow> views (world_of script w) = views w"
  by (auto simp: world_of_def window_of_def assign_close_def)

text \<open>
  C1. \<^verbatim>\<open>wrapGM\<close> returns for every descriptor. When the declared grant array is missing,
  empty or exactly \<^verbatim>\<open>['none']\<close>, the window binding of the sandbox is the real global
  object and no view is built. For every other grant array the window binding is the
  Protected View that the call allocated, an object of the heap of views and not the real
  global object.
\<close>

theorem window_binding:
  "\<exists>sb s' w'. wrapGM script code cache w = (Return (sb, s'), w')
     \<and> map_option p_value (map_of (wrapper sb) ''window'')
         = Some (GVal (if declared script = [] \<or> declared script = [''none'']
                       then GlobalRef else ViewRef (heap_next w)))
     \<and> (if declared script = [] \<or> declared script = [''none'']
         then views w' = views w
         else views w' (heap_next w) \<noteq> None \<and> ViewRef (heap_next w) \<noteq> GlobalRef)"
proof -
  obtain gm where g:
    "wrapGM script code cache w =
       (Return (\<lparr>thisObj = this_of script w, wrapper = gm\<rparr>, script_of script), world_of script w)"
    "map_of gm = (\<lambda>n. if n \<in> set (effective (declared script)) \<and> n \<in> set gm_names
                         then map_option made
                                (gmFunctions (s_id script) (gmInfo script code (world_of script w)) n)
                         else if n = ''window''
                         then Some \<lparr>p_value = GVal (window_of script w), p_writable = True,
                                    p_enumerable = True, p_configurable = True\<rparr>
                         else None)"
    using wrapGM_result by blast
  have "map_option p_value (map_of gm ''window'') = Some (GVal (window_of script w))"
    unfolding g(2) using window_not_gm_name by simp
  then show ?thesis
    using g(1) views_world_of [of script w] views_world_of_trusted [of script w]
    by (auto simp: window_of_def no_grant_iff)
qed

theorem window_binding_witness:
  "(\<exists>sb s' w'. wrapGM (mk_script ''A'' (Some [''none'']) None) [] no_cache world0 = (Return (sb, s'), w')
      \<and> map_option p_value (map_of (wrapper sb) ''window'') = Some (GVal GlobalRef)
      \<and> views w' = views world0)
   \<and> (\<exists>sb s' w'. wrapGM (mk_script ''B'' (Some [''GM_log'']) None) [] no_cache world0 = (Return (sb, s'), w')
      \<and> map_option p_value (map_of (wrapper sb) ''window'') = Some (GVal (ViewRef 0))
      \<and> views w' 0 \<noteq> None)"
  using window_binding [of "mk_script ''A'' (Some [''none'']) None" "[]" no_cache world0]
    window_binding [of "mk_script ''B'' (Some [''GM_log'']) None" "[]" no_cache world0]
  by (simp add: mk_script_def declared_def world0_def)



subsection \<open>The descriptor after wrapGM\<close>

lemma script_of_eq:
  "script_of script
     = script\<lparr>s_meta := (s_meta script)\<lparr>m_grant := map_option effective (m_grant (s_meta script))\<rparr>\<rparr>"
  by (cases "m_grant (s_meta script)") (simp_all add: script_of_def)

text \<open>
  C9, as the code has it. \<^verbatim>\<open>wrapGM\<close> leaves every field of the descriptor as it was except
  \<^verbatim>\<open>meta.grant\<close>: a descriptor that has a grant array has it replaced by the effective
  array (a lone \<^verbatim>\<open>'none'\<close> or nothing popped, then \<^verbatim>\<open>unsafeWindow\<close> and \<^verbatim>\<open>GM_info\<close> pushed
  when missing); a descriptor without a grant array is unchanged.
\<close>

theorem descriptor_after_wrapGM:
  "\<exists>sb w'. wrapGM script code cache w =
      (Return (sb, script\<lparr>s_meta := (s_meta script)
                 \<lparr>m_grant := map_option effective (m_grant (s_meta script))\<rparr>\<rparr>), w')"
  using wrapGM_result [of script code cache w] unfolding script_of_eq by blast

theorem descriptor_after_wrapGM_witness:
  "\<exists>sb w'. wrapGM (mk_script ''B'' (Some [''GM_log'']) (Some ''document-start'')) [] no_cache world0
     = (Return (sb, mk_script ''B'' (Some [''GM_log'', ''unsafeWindow'', ''GM_info''])
                      (Some ''document-start'')), w')"
  using descriptor_after_wrapGM [of "mk_script ''B'' (Some [''GM_log'']) (Some ''document-start'')" "[]" no_cache world0]
  by (simp add: mk_script_def effective_def push_missing_def no_grant_def)

text \<open>
  C9 as stated fails: a descriptor received with the grant array \<^verbatim>\<open>['none']\<close> has the grant
  array \<^verbatim>\<open>['unsafeWindow', 'GM_info']\<close> after \<^verbatim>\<open>wrapGM\<close>.
\<close>

theorem descriptor_changed_counterexample:
  "m_grant (s_meta (mk_script ''A'' (Some [''none'']) None)) = Some [''none'']
   \<and> returned_script (wrapGM (mk_script ''A'' (Some [''none'']) None) [] no_cache world0)
       = Some (mk_script ''A'' (Some [''unsafeWindow'', ''GM_info'']) None)
   \<and> returned_script (wrapGM (mk_script ''A'' (Some [''none'']) None) [] no_cache world0)
       \<noteq> Some (mk_script ''A'' (Some [''none'']) None)"
proof -
  have "returned_script (wrapGM (mk_script ''A'' (Some [''none'']) None) [] no_cache world0)
          = Some (script_of (mk_script ''A'' (Some [''none'']) None))"
    using wrapGM_result [of "mk_script ''A'' (Some [''none'']) None" "[]" no_cache world0]
    by (auto simp: returned_script_def)
  moreover have "script_of (mk_script ''A'' (Some [''none'']) None)
          = mk_script ''A'' (Some [''unsafeWindow'', ''GM_info'']) None"
    by (simp add: script_of_def mk_script_def effective_def push_missing_def no_grant_def)
  ultimately show ?thesis
    by (simp add: mk_script_def)
qed

subsection \<open>The properties of a Protected View\<close>











section \<open>Code assembler\<close>

text \<open>\<^verbatim>\<open>a || b\<close> on fields that may be missing: the empty string is falsy.\<close>

definition or_else :: "string option \<Rightarrow> string option \<Rightarrow> string option" where
  "or_else a b = (case a of None \<Rightarrow> b | Some s \<Rightarrow> if s \<noteq> [] then a else b)"




definition script_name :: "script \<Rightarrow> string" where
  "script_name script =
     (case or_else (c_name (s_custom script)) (m_name (s_meta script)) of
        None \<Rightarrow> s_id script
      | Some s \<Rightarrow> if s \<noteq> [] then s else s_id script)"




section \<open>Execution scheduler\<close>



fun queue :: "listref \<Rightarrow> world \<Rightarrow> script list" where
  "queue LStart w = startQ w"
| "queue LIdle w = idleQ w"
| "queue LEnd w = endQ w"

fun set_queue :: "listref \<Rightarrow> script list \<Rightarrow> world \<Rightarrow> world" where
  "set_queue LStart ss w = w\<lparr>startQ := ss\<rparr>"
| "set_queue LIdle ss w = w\<lparr>idleQ := ss\<rparr>"
| "set_queue LEnd ss w = w\<lparr>endQ := ss\<rparr>"


text \<open>The names of the attached functions, in the order of attachment.\<close>

definition built :: "world \<Rightarrow> string list" where
  "built w = map (\<lambda>kv. a_name (snd kv)) (attached w)"


lemma script_name_script_of [simp]: "script_name (script_of script) = script_name script"
  by (simp add: script_name_def script_of_def split: option.splits)


lemma queue_set_queue [simp]: "queue l (set_queue l ss w) = ss"
  by (cases l) simp_all







text \<open>
  The listener of \<^verbatim>\<open>DOMContentLoaded\<close> that \<^verbatim>\<open>initialize\<close> installs sets \<^verbatim>\<open>state = 1\<close> and
  queues \<^verbatim>\<open>bridge.load\<close> as a microtask, which runs as soon as the listener has returned.
  \<open>run_timer\<close> is a later turn of the event loop: it takes the oldest \<^verbatim>\<open>setTimeout\<close> task.
\<close>

definition initialize :: "string list \<Rightarrow> world \<Rightarrow> world" where
  "initialize props w = post Ready (w\<lparr>bridge_props := props\<rparr>)"



subsection \<open>Running a script\<close>


definition error_message :: "string \<Rightarrow> thrown \<Rightarrow> string" where
  "error_message name t =
     (case t of
        Thrown e message \<Rightarrow>
          (let msg = ''Error running script: '' @ name @ [CHR 0x0A] @ e
           in case message of
                None \<Rightarrow> msg
              | Some m \<Rightarrow> if m \<noteq> [] then msg @ [CHR 0x0A] @ m else msg))"




text \<open>
  What one notification adds to the console and to the list of applied functions, read off
  the attached function and the injected code.
\<close>

definition attached_func :: "world \<Rightarrow> uid \<Rightarrow> (string \<times> func) option" where
  "attached_func w fnId =
     (case map_of (attached w) fnId of
        None \<Rightarrow> None
      | Some t \<Rightarrow> (case injected w (a_id t) of None \<Rightarrow> None | Some f \<Rightarrow> Some (a_name t, f)))"

definition entries_of :: "world \<Rightarrow> uid \<Rightarrow> entry list" where
  "entries_of w fnId =
     (case attached_func w fnId of
        None \<Rightarrow> []
      | Some (name, Func i t) \<Rightarrow>
          (if debug w then [Log (''Run script: '' @ name)] else [])
          @ (case t of None \<Rightarrow> [] | Some e \<Rightarrow> [Error (error_message name e)]))"

definition funcs_of :: "world \<Rightarrow> uid \<Rightarrow> func list" where
  "funcs_of w fnId = (case attached_func w fnId of None \<Rightarrow> [] | Some (name, f) \<Rightarrow> [f])"










subsection \<open>Properties of the scheduler\<close>







lemma set_queue_twice [simp]: "set_queue l ss (set_queue l ss' w) = set_queue l ss w"
  by (cases l) simp_all

lemma built_set_queue [simp]: "built (set_queue l ss w) = built w"
  by (cases l) (simp_all add: built_def)


















subsection \<open>Properties of running a script\<close>



lemma attached_func_frame [simp]:
  "attached_func (w\<lparr>console := c, executed := e\<rparr>) = attached_func w"
  by (simp add: attached_func_def fun_eq_iff split: option.splits)

lemma entries_of_frame [simp]:
  "entries_of (w\<lparr>console := c, executed := e\<rparr>) = entries_of w"
  by (simp add: entries_of_def fun_eq_iff split: option.splits prod.splits func.splits)

lemma funcs_of_frame [simp]:
  "funcs_of (w\<lparr>console := c, executed := e\<rparr>) = funcs_of w"
  by (simp add: funcs_of_def fun_eq_iff)





end
